theory Spec2Isabelle
  imports Complex_Main
begin

section \<open>JavaScript values\<close>

text \<open>
  The numbers the effect computes with are JavaScript numbers. A finite number is read
  as the real it denotes; the two infinities and \<open>NaN\<close> are values of their own, and
  \<open>Undefined\<close> is what an array read past the end returns. In arithmetic and in
  comparisons \<open>Undefined\<close> converts to \<open>NaN\<close>, as ToNumber does.

  Two things of the double format are left out. Arithmetic on finite numbers is exact:
  a sum, a product or a quotient is neither rounded nor does it overflow to an
  infinity. And zero has no sign: \<open>Num 0\<close> stands for both zeros.
\<close>

datatype jsval = Undefined | NaN | Num real | PInf | NInf

text \<open>The relational operators: a comparison with \<open>NaN\<close> is false.\<close>

fun jlt :: "jsval \<Rightarrow> jsval \<Rightarrow> bool" where
  "jlt (Num a) (Num b) = (a < b)"
| "jlt NInf (Num b) = True"
| "jlt NInf PInf = True"
| "jlt (Num a) PInf = True"
| "jlt _ _ = False"

fun jle :: "jsval \<Rightarrow> jsval \<Rightarrow> bool" where
  "jle (Num a) (Num b) = (a \<le> b)"
| "jle NInf (Num b) = True"
| "jle NInf PInf = True"
| "jle NInf NInf = True"
| "jle (Num a) PInf = True"
| "jle PInf PInf = True"
| "jle _ _ = False"

definition jgt :: "jsval \<Rightarrow> jsval \<Rightarrow> bool" where
  "jgt a b = jlt b a"

definition jge :: "jsval \<Rightarrow> jsval \<Rightarrow> bool" where
  "jge a b = jle b a"

text \<open>\<open>Math.min\<close> and \<open>Math.max\<close> return \<open>NaN\<close> as soon as one argument is.\<close>

fun jmin :: "jsval \<Rightarrow> jsval \<Rightarrow> jsval" where
  "jmin (Num a) (Num b) = Num (min a b)"
| "jmin NInf (Num b) = NInf"
| "jmin (Num a) NInf = NInf"
| "jmin NInf NInf = NInf"
| "jmin NInf PInf = NInf"
| "jmin PInf NInf = NInf"
| "jmin PInf (Num b) = Num b"
| "jmin (Num a) PInf = Num a"
| "jmin PInf PInf = PInf"
| "jmin _ _ = NaN"

fun jmax :: "jsval \<Rightarrow> jsval \<Rightarrow> jsval" where
  "jmax (Num a) (Num b) = Num (max a b)"
| "jmax PInf (Num b) = PInf"
| "jmax (Num a) PInf = PInf"
| "jmax PInf PInf = PInf"
| "jmax PInf NInf = PInf"
| "jmax NInf PInf = PInf"
| "jmax NInf (Num b) = Num b"
| "jmax (Num a) NInf = Num a"
| "jmax NInf NInf = NInf"
| "jmax _ _ = NaN"

text \<open>Sum and difference: opposite infinities cancel to \<open>NaN\<close>.\<close>

fun jadd :: "jsval \<Rightarrow> jsval \<Rightarrow> jsval" where
  "jadd (Num a) (Num b) = Num (a + b)"
| "jadd PInf (Num b) = PInf"
| "jadd (Num a) PInf = PInf"
| "jadd PInf PInf = PInf"
| "jadd NInf (Num b) = NInf"
| "jadd (Num a) NInf = NInf"
| "jadd NInf NInf = NInf"
| "jadd _ _ = NaN"

fun jsub :: "jsval \<Rightarrow> jsval \<Rightarrow> jsval" where
  "jsub (Num a) (Num b) = Num (a - b)"
| "jsub PInf (Num b) = PInf"
| "jsub (Num a) NInf = PInf"
| "jsub PInf NInf = PInf"
| "jsub NInf (Num b) = NInf"
| "jsub (Num a) PInf = NInf"
| "jsub NInf PInf = NInf"
| "jsub _ _ = NaN"

text \<open>The sign of a product or quotient with an infinity; zero times infinity is \<open>NaN\<close>.\<close>

definition signed :: "bool \<Rightarrow> jsval" where
  "signed positive = (if positive then PInf else NInf)"

fun jmul :: "jsval \<Rightarrow> jsval \<Rightarrow> jsval" where
  "jmul (Num a) (Num b) = Num (a * b)"
| "jmul PInf (Num b) = (if b = 0 then NaN else signed (0 < b))"
| "jmul NInf (Num b) = (if b = 0 then NaN else signed (b < 0))"
| "jmul (Num a) PInf = (if a = 0 then NaN else signed (0 < a))"
| "jmul (Num a) NInf = (if a = 0 then NaN else signed (a < 0))"
| "jmul PInf PInf = PInf"
| "jmul NInf NInf = PInf"
| "jmul PInf NInf = NInf"
| "jmul NInf PInf = NInf"
| "jmul _ _ = NaN"

text \<open>
  Division: \<open>0 / 0\<close> and an infinity over an infinity are \<open>NaN\<close>, a finite number over
  an infinity is zero, and a non-zero number over zero is an infinity. With no sign on
  zero, the divisor zero is taken as the positive one; the quotients of
  \<open>setLayerStyle\<close> never divide a non-zero number by zero (lemma \<open>ratio_zero_window\<close>
  below), and \<open>getScaleValue\<close> divides by 100.
\<close>

fun jdiv :: "jsval \<Rightarrow> jsval \<Rightarrow> jsval" where
  "jdiv (Num a) (Num b) =
     (if b = 0 then (if a = 0 then NaN else signed (0 < a)) else Num (a / b))"
| "jdiv (Num a) PInf = Num 0"
| "jdiv (Num a) NInf = Num 0"
| "jdiv PInf (Num b) = signed (0 \<le> b)"
| "jdiv NInf (Num b) = signed (b < 0)"
| "jdiv _ _ = NaN"

text \<open>ToBoolean: \<open>undefined\<close>, \<open>NaN\<close> and zero are falsy.\<close>

fun truthy :: "jsval \<Rightarrow> bool" where
  "truthy (Num a) = (a \<noteq> 0)"
| "truthy PInf = True"
| "truthy NInf = True"
| "truthy _ = False"

text \<open>The operator \<open>a || b\<close>.\<close>

definition jor :: "jsval \<Rightarrow> jsval \<Rightarrow> jsval" where
  "jor a b = (if truthy a then a else b)"

text \<open>An array read \<open>xs[i]\<close>: \<open>undefined\<close> past the end.\<close>

definition elemAt :: "jsval list \<Rightarrow> nat \<Rightarrow> jsval" where
  "elemAt xs i = (if i < length xs then xs ! i else Undefined)"

text \<open>\<open>Array.prototype.findIndex\<close>; \<open>None\<close> stands for the result \<open>-1\<close>.\<close>

fun findIndex :: "('a \<Rightarrow> bool) \<Rightarrow> 'a list \<Rightarrow> nat option" where
  "findIndex P [] = None"
| "findIndex P (x # xs) =
     (if P x then Some 0 else map_option Suc (findIndex P xs))"


section \<open>Parsing integers\<close>

text \<open>
  The Number value of an integer: the integer itself below \<open>2 ^ 53\<close> in magnitude;
  beyond, the nearest number with a significand of 53 bits, a tie going to the even
  significand; and an infinity once that reaches \<open>2 ^ 1024\<close>.
\<close>

fun bitLength :: "nat \<Rightarrow> nat" where
  "bitLength n = (if n = 0 then 0 else Suc (bitLength (n div 2)))"

definition roundMagnitude :: "nat \<Rightarrow> nat" where
  "roundMagnitude m =
     (if m < 2 ^ 53 then m
      else (let shift = bitLength m - 53;
                q = m div 2 ^ shift;
                r = m mod 2 ^ shift;
                half = 2 ^ (shift - 1);
                q' = (if half < r \<or> (r = half \<and> odd q) then q + 1 else q)
            in q' * 2 ^ shift))"

definition numberValue :: "int \<Rightarrow> jsval" where
  "numberValue n =
     (let m = roundMagnitude (nat \<bar>n\<bar>)
      in if 2 ^ 1024 \<le> m then signed (0 < n)
         else Num (if n < 0 then - real m else real m))"

text \<open>
  \<open>parseInt(s, 10)\<close>: leading white space is skipped, one sign is read, then the
  longest run of decimal digits; with no digit the result is \<open>NaN\<close>, and else the
  Number value of the integer read. Whatever follows the digits is ignored. Strings
  are read as lists of 8-bit characters.
\<close>

definition isWhiteSpace :: "char \<Rightarrow> bool" where
  "isWhiteSpace c =
     (c = CHR 0x09 \<or> c = CHR 0x0A \<or> c = CHR 0x0B \<or> c = CHR 0x0C \<or> c = CHR 0x0D
      \<or> c = CHR 0x20 \<or> c = CHR 0xA0)"

definition isDigit :: "char \<Rightarrow> bool" where
  "isDigit c = (48 \<le> (of_char c :: nat) \<and> (of_char c :: nat) \<le> 57)"

definition digitsValue :: "string \<Rightarrow> int" where
  "digitsValue ds = foldl (\<lambda>a c. 10 * a + (int (of_char c) - 48)) 0 ds"

definition parseInt :: "string \<Rightarrow> jsval" where
  "parseInt s =
     (let t = dropWhile isWhiteSpace s;
          sign = (if t \<noteq> [] \<and> hd t = CHR ''-'' then - 1 else (1::int));
          u = (if t \<noteq> [] \<and> (hd t = CHR ''+'' \<or> hd t = CHR ''-'') then tl t else t);
          z = takeWhile isDigit u
      in if z = [] then NaN else numberValue (sign * digitsValue z))"


section \<open>pushin.js: the PushIn object\<close>

text \<open>
  What the code reads of a layer's element: \<open>dataset.pushinSpeed\<close>, \<open>None\<close> when the
  attribute \<open>data-pushin-speed\<close> is absent.
\<close>

record dataset =
  pushinSpeed :: "string option"

record ref =
  inpoints :: "jsval list"
  outpoints :: "jsval list"

record params =
  inpoint :: jsval
  outpoint :: jsval
  speed :: jsval

record 'p layer =
  elem :: dataset
  index :: nat
  originalScale :: jsval
  ref :: ref
  params :: 'p

record PushIn =
  layers :: "params layer list"
  breakpoints :: "jsval list"
  scrollPos :: jsval
  transitionLength :: jsval

text \<open>
  What \<open>setScale\<close> and the final assignment of \<open>setLayerStyle\<close> write on the element's
  style: \<open>scale = Some v\<close> once \<open>scale(v)\<close> has been written as its transform.
\<close>

record style =
  opacity :: jsval
  scale :: "jsval option"

text \<open>
  \<open>getBreakpointIndex\<close>. \<open>Array.prototype.reverse\<close> reverses \<open>this.breakpoints\<close> in
  place, so the call returns the index together with the object whose array is now in
  the opposite order. The argument is \<open>window.innerWidth\<close>.
\<close>

definition getBreakpointIndex :: "jsval \<Rightarrow> PushIn \<Rightarrow> nat \<times> PushIn" where
  "getBreakpointIndex innerWidth s =
     (let s' = s\<lparr>breakpoints := rev (breakpoints s)\<rparr>;
          searchIndex = findIndex (\<lambda>bp. jle bp innerWidth) (breakpoints s')
      in (case searchIndex of
            None \<Rightarrow> 0
          | Some k \<Rightarrow> length (breakpoints s') - 1 - k, s'))"

text \<open>
  \<open>getInpoint\<close> and \<open>getOutpoint\<close>: \<open>values[this.getBreakpointIndex()] || values[0]\<close>.
\<close>

definition getInpoint :: "jsval list \<Rightarrow> jsval \<Rightarrow> PushIn \<Rightarrow> jsval \<times> PushIn" where
  "getInpoint ins innerWidth s =
     (let (i, s') = getBreakpointIndex innerWidth s
      in (jor (elemAt ins i) (elemAt ins 0), s'))"

definition getOutpoint :: "jsval list \<Rightarrow> jsval \<Rightarrow> PushIn \<Rightarrow> jsval \<times> PushIn" where
  "getOutpoint outs innerWidth s =
     (let (i, s') = getBreakpointIndex innerWidth s
      in (jor (elemAt outs i) (elemAt outs 0), s'))"

text \<open>
  \<open>getSpeed\<close>: the attribute when the dataset has it, else the number 8, goes through
  \<open>parseInt\<close> (which first converts the number 8 to the string \<open>8\<close>).
\<close>

definition getSpeed :: "dataset \<Rightarrow> jsval" where
  "getSpeed e =
     (let defaultSpeed = Num 8;
          sp = (case pushinSpeed e of Some a \<Rightarrow> a | None \<Rightarrow> ''8'');
          speedInt = parseInt sp;
          speedInt = (if speedInt = NaN then defaultSpeed else speedInt)
      in jor speedInt (Num 8))"

text \<open>
  \<open>resetLayerParams\<close>: for each layer in order, the new \<open>params\<close> object is built field
  by field, so \<open>getInpoint\<close> runs before \<open>getOutpoint\<close>, each on the object the call
  before it left.
\<close>

fun resetLayers :: "jsval \<Rightarrow> params layer list \<Rightarrow> PushIn \<Rightarrow> params layer list \<times> PushIn" where
  "resetLayers innerWidth [] s = ([], s)"
| "resetLayers innerWidth (l # ls) s =
     (let (i, s1) = getInpoint (inpoints (ref l)) innerWidth s;
          (out, s2) = getOutpoint (outpoints (ref l)) innerWidth s1;
          l' = l\<lparr>params := \<lparr>inpoint = i, outpoint = out, speed = getSpeed (elem l)\<rparr>\<rparr>;
          (ls', s3) = resetLayers innerWidth ls s2
      in (l' # ls', s3))"

definition resetLayerParams :: "jsval \<Rightarrow> PushIn \<Rightarrow> PushIn" where
  "resetLayerParams innerWidth s =
     (let (ls, s') = resetLayers innerWidth (layers s) s in s'\<lparr>layers := ls\<rparr>)"

text \<open>\<open>isActive\<close> of pushin.js.\<close>

definition isActive :: "PushIn \<Rightarrow> params layer \<Rightarrow> bool" where
  "isActive s l =
     (jge (scrollPos s) (inpoint (params l)) \<and> jle (scrollPos s) (outpoint (params l)))"

text \<open>
  The factor \<open>Math.min(layer.params.speed, 100) / 100\<close> that both versions of
  \<open>getScaleValue\<close> bind to the local constant \<open>speed\<close>.
\<close>

definition speedFactor :: "jsval \<Rightarrow> jsval" where
  "speedFactor sp = jdiv (jmin sp (Num 100)) (Num 100)"

definition getScaleValue :: "PushIn \<Rightarrow> params layer \<Rightarrow> jsval" where
  "getScaleValue s l =
     (let distance = jsub (scrollPos s) (inpoint (params l));
          sp = speedFactor (speed (params l));
          delta = jdiv (jmul distance sp) (Num 100)
      in jmax (jadd (originalScale l) delta) (Num 0))"

definition setScale :: "style \<Rightarrow> jsval \<Rightarrow> style" where
  "setScale st v = st\<lparr>scale := Some v\<rparr>"

text \<open>
  \<open>setLayerStyle\<close> of pushin.js, on the style of the layer's element. The opacity is
  assigned last, after the branch has written the scale.
\<close>

definition setLayerStyle :: "PushIn \<Rightarrow> params layer \<Rightarrow> style \<Rightarrow> style" where
  "setLayerStyle s l st =
     (let isFirst = (index l = 0);
          isLast = (index l + 1 = length (layers s));
          inp = inpoint (params l);
          outp = outpoint (params l);
          (op, st') =
            (if isFirst \<and> jlt (scrollPos s) inp then (Num 1, st)
             else if isLast \<and> jgt (scrollPos s) outp then (Num 1, st)
             else if isActive s l then
               (let st1 = setScale st (getScaleValue s l);
                    inpointDistance =
                      jdiv (jmax (jmin (jsub (scrollPos s) inp) (transitionLength s)) (Num 0))
                           (transitionLength s);
                    inpointDistance = (if isFirst then Num 1 else inpointDistance);
                    outpointDistance =
                      jdiv (jmax (jmin (jsub outp (scrollPos s)) (transitionLength s)) (Num 0))
                           (transitionLength s);
                    outpointDistance = (if isLast then Num 1 else outpointDistance)
                in (jmin inpointDistance outpointDistance, st1))
             else (Num 0, st))
      in st'\<lparr>opacity := op\<rparr>)"


text \<open>
  The layer that one round of \<open>resetLayerParams\<close> makes of a layer, when the round
  reaches it with the object \<open>s\<close>: used to describe \<open>resetLayers\<close> as a map.
\<close>

definition reset1 :: "jsval \<Rightarrow> PushIn \<Rightarrow> params layer \<Rightarrow> params layer" where
  "reset1 w s l =
     l\<lparr>params :=
        \<lparr>inpoint = fst (getInpoint (inpoints (ref l)) w s),
         outpoint = fst (getOutpoint (outpoints (ref l)) w
                           (snd (getInpoint (inpoints (ref l)) w s))),
         speed = getSpeed (elem l)\<rparr>\<rparr>"


section \<open>The PushInLayer class\<close>

text \<open>
  The later, typed version of the layer. Its \<open>params\<close> extend those of pushin.js with
  the depth and the transition settings.
\<close>

record LayerParams = params +
  depth :: jsval
  transitions :: bool
  transitionStart :: jsval
  transitionEnd :: jsval

type_synonym PushInLayer = "LayerParams layer"

text \<open>
  What a layer reads of its scene: \<open>scene.pushin.scrollY\<close>, \<open>scene.layers.length\<close> and
  the value of \<open>scene.getBreakpointIndex(breakpoints)\<close>. The scene class is not among
  the sources, so the index it returns is a field here.
\<close>

record PushInScene =
  scrollY :: jsval
  layersLength :: nat
  breakpointIndex :: nat

text \<open>
  Modelled from the spec: the constant \<open>DEFAULT_SPEED\<close> of the module \<open>constants\<close>,
  which is not among the sources; the spec gives the speed as an integer with
  default 8.
\<close>

definition DEFAULT_SPEED :: jsval where
  "DEFAULT_SPEED = Num 8"

text \<open>
  \<open>PushInLayer.getSpeed\<close>. The first argument is \<open>element.dataset[...]\<close> (an empty
  string is falsy), the second \<open>this.options?.speed\<close> (\<open>Undefined\<close> without options).
  The local \<open>speed\<close> starts as \<open>null\<close>, here \<open>None\<close>.
\<close>

definition layerGetSpeed :: "string option \<Rightarrow> jsval \<Rightarrow> jsval" where
  "layerGetSpeed attr optionsSpeed =
     (let sp =
        (case attr of
           Some (c # cs) \<Rightarrow>
             (let p = parseInt (c # cs) in Some (if p = NaN then DEFAULT_SPEED else p))
         | _ \<Rightarrow> if truthy optionsSpeed then Some optionsSpeed else None)
      in case sp of None \<Rightarrow> DEFAULT_SPEED | Some v \<Rightarrow> jor v DEFAULT_SPEED)"

text \<open>\<open>PushInLayer.getInpoint\<close> and \<open>getOutpoint\<close>.\<close>

definition layerGetInpoint :: "PushInScene \<Rightarrow> jsval list \<Rightarrow> jsval" where
  "layerGetInpoint sc ins = jor (elemAt ins (breakpointIndex sc)) (elemAt ins 0)"

definition layerGetOutpoint :: "PushInScene \<Rightarrow> jsval list \<Rightarrow> jsval" where
  "layerGetOutpoint sc outs = jor (elemAt outs (breakpointIndex sc)) (elemAt outs 0)"

text \<open>\<open>PushInLayer.isActive\<close>.\<close>

definition layerIsActive :: "PushInScene \<Rightarrow> PushInLayer \<Rightarrow> bool" where
  "layerIsActive sc l =
     (if transitions (params l)
      then jge (scrollY sc) (inpoint (params l)) \<and> jle (scrollY sc) (outpoint (params l))
      else True)"

text \<open>\<open>PushInLayer.getScaleValue\<close>.\<close>

definition layerGetScaleValue :: "PushInScene \<Rightarrow> PushInLayer \<Rightarrow> jsval" where
  "layerGetScaleValue sc l =
     (let distance = jsub (scrollY sc) (inpoint (params l));
          sp = speedFactor (speed (params l));
          delta = jdiv (jmul distance sp) (Num 100)
      in jmax (jadd (originalScale l) delta) (Num 0))"

text \<open>
  \<open>PushInLayer.setLayerStyle\<close>. The opacity is written as the number it is the decimal
  string of.
\<close>

definition layerSetLayerStyle :: "PushInScene \<Rightarrow> PushInLayer \<Rightarrow> style \<Rightarrow> style" where
  "layerSetLayerStyle sc l st =
     (let isFirst = (index l = 0);
          isLast = (index l + 1 = layersLength sc);
          inp = inpoint (params l);
          outp = outpoint (params l);
          (op, st') =
            (if isFirst \<and> jlt (scrollY sc) inp then (Num 1, st)
             else if isLast \<and> jgt (scrollY sc) outp then
               (Num 1,
                if \<not> transitions (params l) then setScale st (layerGetScaleValue sc l)
                else st)
             else if layerIsActive sc l then
               (let st1 = setScale st (layerGetScaleValue sc l);
                    inpointDistance =
                      jdiv (jmax (jmin (jsub (scrollY sc) inp) (transitionStart (params l)))
                                 (Num 0))
                           (transitionStart (params l));
                    inpointDistance = (if isFirst then Num 1 else inpointDistance);
                    outpointDistance =
                      jdiv (jmax (jmin (jsub outp (scrollY sc)) (transitionEnd (params l)))
                                 (Num 0))
                           (transitionEnd (params l));
                    outpointDistance = (if isLast then Num 1 else outpointDistance)
                in (if transitions (params l) then jmin inpointDistance outpointDistance
                    else Num 1, st1))
             else (Num 0, st))
      in st'\<lparr>opacity := op\<rparr>)"


section \<open>The formulas of the specification\<close>

text \<open>
  The scale as the specification writes it, from the original scale, the scroll
  position, the inpoint and the speed:
  \<open>max(originalScale + (scrollPos - inpoint) * (min(speed, 100) / 100) / 100, 0)\<close>.
\<close>

definition scaleSpec :: "jsval \<Rightarrow> jsval \<Rightarrow> jsval \<Rightarrow> jsval \<Rightarrow> jsval" where
  "scaleSpec orig pos inp sp =
     jmax (jadd orig (jdiv (jmul (jsub pos inp) (jdiv (jmin sp (Num 100)) (Num 100)))
                           (Num 100)))
          (Num 0)"

text \<open>A number of the interval from 0 to 1.\<close>

definition unit_interval :: "jsval \<Rightarrow> bool" where
  "unit_interval v = (jle (Num 0) v \<and> jle v (Num 1))"


text \<open>
  The two ratios of \<open>setLayerStyle\<close>, as its local variables \<open>inpointDistance\<close> and
  \<open>outpointDistance\<close> hold them when the opacity is computed: the first is 1 for the
  first layer and the second is 1 for the last. In pushin.js the window of both is
  the scene's \<open>transitionLength\<close>.
\<close>

definition inpointDistance :: "PushIn \<Rightarrow> params layer \<Rightarrow> jsval" where
  "inpointDistance s l =
     (if index l = 0 then Num 1
      else jdiv (jmax (jmin (jsub (scrollPos s) (inpoint (params l))) (transitionLength s))
                      (Num 0))
                (transitionLength s))"

definition outpointDistance :: "PushIn \<Rightarrow> params layer \<Rightarrow> jsval" where
  "outpointDistance s l =
     (if index l + 1 = length (layers s) then Num 1
      else jdiv (jmax (jmin (jsub (outpoint (params l)) (scrollPos s)) (transitionLength s))
                      (Num 0))
                (transitionLength s))"

definition layerInpointDistance :: "PushInScene \<Rightarrow> PushInLayer \<Rightarrow> jsval" where
  "layerInpointDistance sc l =
     (if index l = 0 then Num 1
      else jdiv (jmax (jmin (jsub (scrollY sc) (inpoint (params l)))
                            (transitionStart (params l)))
                      (Num 0))
                (transitionStart (params l)))"

definition layerOutpointDistance :: "PushInScene \<Rightarrow> PushInLayer \<Rightarrow> jsval" where
  "layerOutpointDistance sc l =
     (if index l + 1 = layersLength sc then Num 1
      else jdiv (jmax (jmin (jsub (outpoint (params l)) (scrollY sc))
                            (transitionEnd (params l)))
                      (Num 0))
                (transitionEnd (params l)))"


section \<open>The Number value of an integer\<close>

text \<open>Below \<open>2 ^ 53\<close> in magnitude an integer is its own Number value.\<close>

lemma numberValue_small: "\<bar>n\<bar> < 2 ^ 53 \<Longrightarrow> numberValue n = Num (of_int n)"
proof -
  assume a: "\<bar>n\<bar> < 2 ^ 53"
  then have m: "nat \<bar>n\<bar> < 2 ^ 53" by (simp add: nat_less_iff)
  then have r: "roundMagnitude (nat \<bar>n\<bar>) = nat \<bar>n\<bar>" by (simp add: roundMagnitude_def)
  have "(2::nat) ^ 53 \<le> 2 ^ 1024" by (rule power_increasing) simp_all
  with m have "\<not> (2::nat) ^ 1024 \<le> nat \<bar>n\<bar>" by linarith
  with r show ?thesis by (simp add: numberValue_def Let_def)
qed

text \<open>Beyond, it is rounded: \<open>2 ^ 53 + 1\<close> goes to \<open>2 ^ 53\<close>, the even neighbour.\<close>

lemma roundMagnitude_tie: "roundMagnitude 9007199254740993 = 9007199254740992"
  by (simp add: roundMagnitude_def Let_def)

lemma bitLength_bounds: "0 < m \<Longrightarrow> 2 ^ (bitLength m - 1) \<le> m \<and> m < 2 ^ bitLength m"
proof (induction m rule: less_induct)
  case (less m)
  show ?case
  proof (cases "m div 2 = 0")
    case True
    with less.prems have "m = 1" by (auto simp: div_eq_0_iff)
    then show ?thesis by simp
  next
    case False
    then have pos: "0 < m div 2" by simp
    have lt: "m div 2 < m" using less.prems by simp
    from less.IH [OF lt pos]
    have ih: "2 ^ (bitLength (m div 2) - 1) \<le> m div 2" "m div 2 < 2 ^ bitLength (m div 2)"
      by simp_all
    have k: "bitLength m = Suc (bitLength (m div 2))"
      using less.prems by (subst bitLength.simps) simp
    have k1: "0 < bitLength (m div 2)"
      using pos by (subst bitLength.simps) simp
    then have e: "(2::nat) ^ bitLength (m div 2) = 2 * 2 ^ (bitLength (m div 2) - 1)"
      by (cases "bitLength (m div 2)") simp_all
    have "2 * (m div 2) \<le> m" by simp
    with ih(1) e have lo: "2 ^ bitLength (m div 2) \<le> m" by linarith
    have "m < 2 * (m div 2) + 2" by arith
    with ih(2) have hi: "m < 2 * 2 ^ bitLength (m div 2)" by linarith
    from lo hi show ?thesis by (simp add: k del: bitLength.simps)
  qed
qed

lemma roundMagnitude_overflow:
  assumes "2 ^ 1024 \<le> m"
  shows "2 ^ 1024 \<le> roundMagnitude m"
proof -
  let ?k = "bitLength m"
  define shift where "shift = ?k - 53"
  define c :: nat where "c = 2 ^ 52"
  define top :: nat where "top = 2 ^ 1024"
  have pos: "0 < m" using assms by (cases "m = 0") simp_all
  from bitLength_bounds [OF pos] have lo: "2 ^ (?k - 1) \<le> m" and hi: "m < 2 ^ ?k"
    by simp_all
  from assms hi have p: "(2::nat) ^ 1024 < 2 ^ ?k" by linarith
  have "(1::nat) < 2" by simp
  then have k: "1024 < ?k" using p by (rule power_less_imp_less_exp)
  then have split: "?k - 1 = 52 + shift" by (simp add: shift_def del: bitLength.simps)
  have big: "\<not> m < 2 ^ 53"
  proof -
    have "(2::nat) ^ 53 \<le> 2 ^ 1024" by (rule power_increasing) simp_all
    with assms show ?thesis by linarith
  qed
  have e: "(2::nat) ^ (?k - 1) = c * 2 ^ shift"
    unfolding split c_def by (rule power_add)
  have cm: "c * 2 ^ shift \<le> m" using lo unfolding e .
  then have q: "c \<le> m div 2 ^ shift"
    by (simp add: less_eq_div_iff_mult_less_eq)
  have "1024 \<le> ?k - 1" using k by (simp del: bitLength.simps)
  then have "(2::nat) ^ 1024 \<le> 2 ^ (?k - 1)" by (intro power_increasing) simp_all
  then have t: "top \<le> c * 2 ^ shift" unfolding e top_def .
  have goal: "top \<le> q' * 2 ^ shift" if "m div 2 ^ shift \<le> q'" for q'
  proof -
    from q that have "c \<le> q'" by simp
    then have "c * 2 ^ shift \<le> q' * 2 ^ shift" by (rule mult_right_mono) simp
    with t show ?thesis by (rule order_trans)
  qed
  have "top \<le> roundMagnitude m"
    using big goal [of "m div 2 ^ shift"] goal [of "m div 2 ^ shift + 1"]
    by (simp add: roundMagnitude_def Let_def shift_def del: bitLength.simps)
  then show ?thesis unfolding top_def .
qed

text \<open>
  From \<open>2 ^ 1024\<close> on the value is an infinity: a digit string long enough, such as a
  one followed by 309 zeros, parses to \<open>Infinity\<close>.
\<close>

lemma numberValue_overflow: "2 ^ 1024 \<le> \<bar>n\<bar> \<Longrightarrow> numberValue n = signed (0 < n)"
proof -
  assume "2 ^ 1024 \<le> \<bar>n\<bar>"
  then have "(2::nat) ^ 1024 \<le> nat \<bar>n\<bar>" by (simp add: le_nat_iff)
  then have "2 ^ 1024 \<le> roundMagnitude (nat \<bar>n\<bar>)" by (rule roundMagnitude_overflow)
  then show ?thesis by (simp add: numberValue_def Let_def)
qed

lemmas parse_defs =
  parseInt_def isWhiteSpace_def isDigit_def digitsValue_def numberValue_small


section \<open>The breakpoint index\<close>

lemma findIndex_None_iff: "findIndex P xs = None \<longleftrightarrow> (\<forall>x \<in> set xs. \<not> P x)"
  by (induction xs) auto

lemma findIndex_SomeD:
  "findIndex P xs = Some k \<Longrightarrow> k < length xs \<and> P (xs ! k) \<and> (\<forall>j<k. \<not> P (xs ! j))"
proof (induction xs arbitrary: k)
  case Nil
  then show ?case by simp
next
  case (Cons x xs)
  show ?case
  proof (cases "P x")
    case True
    with Cons.prems show ?thesis by simp
  next
    case False
    with Cons.prems obtain k' where k': "findIndex P xs = Some k'" "k = Suc k'"
      by auto
    from Cons.IH [OF k'(1)] False k'(2) show ?thesis
      by (auto simp: nth_Cons split: nat.splits)
  qed
qed

lemma getBreakpointIndex_state:
  "snd (getBreakpointIndex w s) = s\<lparr>breakpoints := rev (breakpoints s)\<rparr>"
  by (simp add: getBreakpointIndex_def Let_def)

text \<open>
  On the array as it is when the call starts, the call is right: as soon as one entry
  is at most the width, it returns the largest index of such an entry (the array need
  not even be ascending). This is what the first call after \<open>setBreakpoints\<close> sees.
\<close>

lemma getBreakpointIndex_largest:
  assumes "j < length (breakpoints s)" and "jle (breakpoints s ! j) w"
  shows "fst (getBreakpointIndex w s) < length (breakpoints s)
       \<and> jle (breakpoints s ! fst (getBreakpointIndex w s)) w
       \<and> (\<forall>j' < length (breakpoints s). jle (breakpoints s ! j') w
             \<longrightarrow> j' \<le> fst (getBreakpointIndex w s))"
proof -
  let ?b = "breakpoints s"
  let ?P = "\<lambda>bp. jle bp w"
  from assms have "\<exists>x \<in> set (rev ?b). ?P x"
    using nth_mem [of j ?b] by auto
  then obtain k where k: "findIndex ?P (rev ?b) = Some k"
    using findIndex_None_iff [of ?P "rev ?b"] by (cases "findIndex ?P (rev ?b)") auto
  from findIndex_SomeD [OF k]
  have kl: "k < length ?b" and kp: "?P (rev ?b ! k)"
    and kmin: "\<forall>j<k. \<not> ?P (rev ?b ! j)" by auto
  have res: "fst (getBreakpointIndex w s) = length ?b - 1 - k"
    using k by (simp add: getBreakpointIndex_def Let_def)
  have "rev ?b ! k = ?b ! (length ?b - 1 - k)"
    using kl by (simp add: rev_nth)
  with kp have p: "?P (?b ! (length ?b - 1 - k))" by simp
  have "j' \<le> length ?b - 1 - k" if "j' < length ?b" "?P (?b ! j')" for j'
  proof (rule ccontr)
    assume "\<not> j' \<le> length ?b - 1 - k"
    then have lt: "length ?b - 1 - j' < k" using that(1) kl by arith
    have "rev ?b ! (length ?b - 1 - j') = ?b ! j'"
      using that(1) by (simp add: rev_nth)
    with kmin lt that(2) show False by auto
  qed
  with res p kl show ?thesis by auto
qed

text \<open>
  C1. The claim is that \<open>getBreakpointIndex\<close> returns the largest index \<open>i\<close> with
  \<open>B[i] \<le> W\<close> on every invocation, not only the first. The code breaks it on the
  second invocation: with the default breakpoints 0, 768, 1440, 1920 and a window
  1000 wide, the first call returns 1 and leaves the array reversed, and the second
  call, on the same object and width, returns 3 (and puts the array back), the index
  of the breakpoint 1920, which is wider than the window.
\<close>

theorem getBreakpointIndex_second_call:
  "(let s = \<lparr>layers = [], breakpoints = [Num 0, Num 768, Num 1440, Num 1920],
              scrollPos = Num 0, transitionLength = Num 200\<rparr>;
        (i1, s1) = getBreakpointIndex (Num 1000) s;
        (i2, s2) = getBreakpointIndex (Num 1000) s1
    in i1 = 1 \<and> breakpoints s1 = [Num 1920, Num 1440, Num 768, Num 0] \<and> i2 = 3
       \<and> breakpoints s2 = [Num 0, Num 768, Num 1440, Num 1920]
       \<and> jle (breakpoints s ! i1) (Num 1000) \<and> jgt (breakpoints s ! i2) (Num 1000))"
  by (simp add: getBreakpointIndex_def jgt_def)


section \<open>Resetting the layer parameters\<close>

text \<open>
  A layer costs two calls of \<open>getBreakpointIndex\<close>, one in \<open>getInpoint\<close> and one in
  \<open>getOutpoint\<close>, so the array is back in its order when the layer is done.
\<close>

lemma getOutpoint_after_getInpoint:
  "snd (getOutpoint b w (snd (getInpoint a w s))) = s"
  by (simp add: getInpoint_def getOutpoint_def getBreakpointIndex_def Let_def split_def)

lemma resetLayers_map: "resetLayers w ls s = (map (reset1 w s) ls, s)"
proof (induction ls)
  case Nil
  show ?case by simp
next
  case (Cons l ls)
  have "snd (getOutpoint (outpoints (ref l)) w (snd (getInpoint (inpoints (ref l)) w s))) = s"
    by (rule getOutpoint_after_getInpoint)
  with Cons show ?case
    by (simp add: split_def Let_def reset1_def)
qed

lemma reset1_idem: "reset1 w s' (reset1 w s l) = reset1 w s' l"
  by (simp add: reset1_def)

lemma getInpoint_layers:
  "fst (getInpoint a w (s\<lparr>layers := ls\<rparr>)) = fst (getInpoint a w s)"
  by (simp add: getInpoint_def getBreakpointIndex_def Let_def split_def split: option.split)

lemma getOutpoint_layers:
  "fst (getOutpoint a w (snd (getInpoint b w (s\<lparr>layers := ls\<rparr>))))
     = fst (getOutpoint a w (snd (getInpoint b w s)))"
  by (simp add: getInpoint_def getOutpoint_def getBreakpointIndex_def Let_def split_def
           split: option.split)

lemma reset1_layers: "reset1 w (s\<lparr>layers := ls\<rparr>) l = reset1 w s l"
  by (simp add: reset1_def getInpoint_layers getOutpoint_layers)

text \<open>
  C6. Running \<open>resetLayerParams\<close> twice in a row at the same viewport width gives the
  same object as running it once: the same \<open>params\<close> for every layer, and the same
  breakpoint array.
\<close>

theorem resetLayerParams_idempotent:
  "resetLayerParams w (resetLayerParams w s) = resetLayerParams w s"
  by (simp add: resetLayerParams_def resetLayers_map reset1_layers reset1_idem o_def)


section \<open>Resolving a value for the breakpoint\<close>

lemma truthy_iff: "truthy v \<longleftrightarrow> v \<notin> {Undefined, NaN, Num 0}"
  by (cases v) auto

lemma jor_cases: "jor a b = (if a \<notin> {Undefined, NaN, Num 0} then a else b)"
  by (simp add: jor_def truthy_iff)

text \<open>
  C2. On a non-empty list of values, \<open>getInpoint\<close> and \<open>getOutpoint\<close> (of both
  versions) return the entry at the resolved breakpoint index when that entry is
  truthy, that is when the index is inside the list and the entry is neither
  \<open>undefined\<close> nor \<open>NaN\<close> nor zero, and the entry at index 0 otherwise. So a value 0
  configured at a breakpoint resolves to the first value.
\<close>

theorem getInpoint_getOutpoint_fallback:
  assumes "vs \<noteq> []"
  shows "fst (getInpoint vs w s) =
           (let i = fst (getBreakpointIndex w s)
            in if i < length vs \<and> vs ! i \<notin> {Undefined, NaN, Num 0} then vs ! i else vs ! 0)
       \<and> fst (getOutpoint vs w s) =
           (let i = fst (getBreakpointIndex w s)
            in if i < length vs \<and> vs ! i \<notin> {Undefined, NaN, Num 0} then vs ! i else vs ! 0)
       \<and> layerGetInpoint sc vs =
           (let i = breakpointIndex sc
            in if i < length vs \<and> vs ! i \<notin> {Undefined, NaN, Num 0} then vs ! i else vs ! 0)
       \<and> layerGetOutpoint sc vs =
           (let i = breakpointIndex sc
            in if i < length vs \<and> vs ! i \<notin> {Undefined, NaN, Num 0} then vs ! i else vs ! 0)"
  using assms
  by (simp add: getInpoint_def getOutpoint_def layerGetInpoint_def layerGetOutpoint_def
        split_def Let_def jor_cases elemAt_def)

theorem getInpoint_getOutpoint_fallback_witness:
  "[Num 100, Num 0, Num 200, Num 250] \<noteq> []
   \<and> fst (getInpoint [Num 100, Num 0, Num 200, Num 250] (Num 1000)
            \<lparr>layers = [], breakpoints = [Num 0, Num 768, Num 1440, Num 1920],
             scrollPos = Num 0, transitionLength = Num 200\<rparr>) = Num 100
   \<and> layerGetOutpoint \<lparr>scrollY = Num 0, layersLength = 1, breakpointIndex = 2\<rparr>
        [Num 100, Num 0, Num 200, Num 250] = Num 200"
proof -
  have ne: "[Num 100, Num 0, Num 200, Num 250] \<noteq> []" by simp
  from getInpoint_getOutpoint_fallback [OF ne, of "Num 1000"
      "\<lparr>layers = [], breakpoints = [Num 0, Num 768, Num 1440, Num 1920],
        scrollPos = Num 0, transitionLength = Num 200\<rparr>"
      "\<lparr>scrollY = Num 0, layersLength = 1, breakpointIndex = 2\<rparr>"]
  show ?thesis by (simp add: getBreakpointIndex_def)
qed


section \<open>The scale\<close>

lemma jmax_zero: "jmax x (Num 0) = NaN \<or> jle (Num 0) (jmax x (Num 0))"
  by (cases x) auto

lemma scaleSpec_nonneg: "scaleSpec a p i v = NaN \<or> jle (Num 0) (scaleSpec a p i v)"
  by (simp add: scaleSpec_def jmax_zero)

text \<open>
  C3. Both versions of \<open>getScaleValue\<close> compute the formula of the specification,
  which on numbers is \<open>max (a + (p - i) * (min v 100 / 100) / 100) 0\<close>; the result is
  never negative (it is \<open>NaN\<close> or at least 0); and a layer of speed 50, original scale
  1 and inpoint 0 has scale 2 at scroll position 200.
\<close>

theorem getScaleValue_formula:
  "getScaleValue s l =
     scaleSpec (originalScale l) (scrollPos s) (inpoint (params l)) (speed (params l))
   \<and> layerGetScaleValue sc l' =
     scaleSpec (originalScale l') (scrollY sc) (inpoint (params l')) (speed (params l'))
   \<and> scaleSpec (Num a) (Num p) (Num i) (Num v) =
     Num (max (a + (p - i) * (min v 100 / 100) / 100) 0)
   \<and> (getScaleValue s l = NaN \<or> jle (Num 0) (getScaleValue s l))
   \<and> (layerGetScaleValue sc l' = NaN \<or> jle (Num 0) (layerGetScaleValue sc l'))
   \<and> getScaleValue
        \<lparr>layers = [], breakpoints = [Num 0], scrollPos = Num 200, transitionLength = Num 200\<rparr>
        \<lparr>elem = \<lparr>pushinSpeed = Some ''50''\<rparr>, index = 0, originalScale = Num 1,
         ref = \<lparr>inpoints = [Num 0], outpoints = [Num 1000]\<rparr>,
         params = \<lparr>inpoint = Num 0, outpoint = Num 1000, speed = Num 50\<rparr>\<rparr> = Num 2
   \<and> layerGetScaleValue
        \<lparr>scrollY = Num 200, layersLength = 1, breakpointIndex = 0\<rparr>
        \<lparr>elem = \<lparr>pushinSpeed = Some ''50''\<rparr>, index = 0, originalScale = Num 1,
         ref = \<lparr>inpoints = [Num 0], outpoints = [Num 1000]\<rparr>,
         params = \<lparr>inpoint = Num 0, outpoint = Num 1000, speed = Num 50,
                   depth = Num 1000, transitions = True,
                   transitionStart = Num 200, transitionEnd = Num 200\<rparr>\<rparr> = Num 2"
proof -
  have js: "getScaleValue s l =
     scaleSpec (originalScale l) (scrollPos s) (inpoint (params l)) (speed (params l))" for s l
    by (simp add: getScaleValue_def scaleSpec_def speedFactor_def)
  have ts: "layerGetScaleValue sc l' =
     scaleSpec (originalScale l') (scrollY sc) (inpoint (params l')) (speed (params l'))" for sc l'
    by (simp add: layerGetScaleValue_def scaleSpec_def speedFactor_def)
  have num: "scaleSpec (Num a) (Num p) (Num i) (Num v) =
     Num (max (a + (p - i) * (min v 100 / 100) / 100) 0)"
    by (simp add: scaleSpec_def)
  show ?thesis
    unfolding js ts
    using scaleSpec_nonneg num by (simp add: scaleSpec_def)
qed





section \<open>The opacity\<close>

lemma jlt_jle_trans: "jlt a b \<Longrightarrow> jle b c \<Longrightarrow> \<not> jlt c a"
  by (cases a; cases b; cases c) auto

lemma jlt_not_jle: "jlt a b \<Longrightarrow> \<not> jle b a"
  by (cases a; cases b) auto

text \<open>
  C4. For a layer that is not the first and has transitions enabled, at a scroll
  position strictly below its inpoint, with the inpoint at most the outpoint,
  \<open>PushInLayer.setLayerStyle\<close> writes the opacity 0.
\<close>

theorem layerSetLayerStyle_before_inpoint:
  assumes "index l \<noteq> 0"
    and "transitions (params l)"
    and "jlt (scrollY sc) (inpoint (params l))"
    and "jle (inpoint (params l)) (outpoint (params l))"
  shows "opacity (layerSetLayerStyle sc l st) = Num 0"
proof -
  from assms(3,4) have "\<not> jgt (scrollY sc) (outpoint (params l))"
    unfolding jgt_def by (rule jlt_jle_trans)
  moreover from assms(2,3) have "\<not> layerIsActive sc l"
    by (simp add: layerIsActive_def jge_def jlt_not_jle)
  ultimately show ?thesis
    using assms(1) by (simp add: layerSetLayerStyle_def Let_def)
qed

theorem layerSetLayerStyle_before_inpoint_witness:
  "(let sc = \<lparr>scrollY = Num 500, layersLength = 3, breakpointIndex = 0\<rparr>;
        l = \<lparr>elem = \<lparr>pushinSpeed = None\<rparr>, index = 1, originalScale = Num 1,
             ref = \<lparr>inpoints = [Num 900], outpoints = [Num 1900]\<rparr>,
             params = \<lparr>inpoint = Num 900, outpoint = Num 1900, speed = Num 8,
                       depth = Num 1000, transitions = True,
                       transitionStart = Num 200, transitionEnd = Num 200\<rparr>\<rparr>
    in index l \<noteq> 0 \<and> transitions (params l) \<and> jlt (scrollY sc) (inpoint (params l))
       \<and> jle (inpoint (params l)) (outpoint (params l))
       \<and> opacity (layerSetLayerStyle sc l \<lparr>opacity = Num 1, scale = None\<rparr>) = Num 0)"
  using layerSetLayerStyle_before_inpoint
    [of "\<lparr>elem = \<lparr>pushinSpeed = None\<rparr>, index = 1, originalScale = Num 1,
             ref = \<lparr>inpoints = [Num 900], outpoints = [Num 1900]\<rparr>,
             params = \<lparr>inpoint = Num 900, outpoint = Num 1900, speed = Num 8,
                       depth = Num 1000, transitions = True,
                       transitionStart = Num 200, transitionEnd = Num 200\<rparr>\<rparr>"
        "\<lparr>scrollY = Num 500, layersLength = 3, breakpointIndex = 0\<rparr>"
        "\<lparr>opacity = Num 1, scale = None\<rparr>"]
  by simp




text \<open>
  A ratio of \<open>setLayerStyle\<close> over a finite positive window lies between 0 and 1 as
  soon as the distance is a number or an infinity; and over the window 0 the dividend
  is 0 as well, so that the quotient is \<open>NaN\<close>.
\<close>

lemma unit_ratio:
  "0 < a \<Longrightarrow> d \<noteq> NaN \<Longrightarrow> d \<noteq> Undefined \<Longrightarrow>
     unit_interval (jdiv (jmax (jmin d (Num a)) (Num 0)) (Num a))"
  by (cases d) (auto simp: unit_interval_def min_def max_def field_simps)

lemma ratio_zero_window: "jdiv (jmax (jmin d (Num 0)) (Num 0)) (Num 0) = NaN"
  by (cases d) (auto simp: min_def max_def)

lemma unit_jmin: "unit_interval x \<Longrightarrow> unit_interval y \<Longrightarrow> unit_interval (jmin x y)"
  by (cases x; cases y) (auto simp: unit_interval_def min_def)

lemma unit_01: "unit_interval (Num 0)" "unit_interval (Num 1)"
  by (simp_all add: unit_interval_def)

lemma unit_interval_Num: "unit_interval v \<Longrightarrow> \<exists>r. v = Num r \<and> 0 \<le> r \<and> r \<le> 1"
  by (cases v) (auto simp: unit_interval_def)

text \<open>
  At a scroll position that is not an infinity, the distance to an inpoint below it, or
  from it to an outpoint above it, is a number or an infinity.
\<close>

lemma jsub_ge:
  "jge y i \<Longrightarrow> y \<noteq> PInf \<Longrightarrow> y \<noteq> NInf \<Longrightarrow> jsub y i \<noteq> NaN \<and> jsub y i \<noteq> Undefined"
  by (cases y; cases i) (auto simp: jge_def)

lemma jsub_le:
  "jle y out \<Longrightarrow> y \<noteq> PInf \<Longrightarrow> y \<noteq> NInf \<Longrightarrow> jsub out y \<noteq> NaN \<and> jsub out y \<noteq> Undefined"
  by (cases y; cases out) auto

lemma layer_ratios_unit:
  assumes "transitionStart (params l) = Num a" "0 < a"
    and "transitionEnd (params l) = Num b" "0 < b"
    and "scrollY sc \<noteq> PInf" "scrollY sc \<noteq> NInf"
    and "jge (scrollY sc) (inpoint (params l))" "jle (scrollY sc) (outpoint (params l))"
  shows "unit_interval (layerInpointDistance sc l)"
    and "unit_interval (layerOutpointDistance sc l)"
proof -
  from jsub_ge [OF assms(7,5,6)] unit_ratio [OF assms(2)]
  show "unit_interval (layerInpointDistance sc l)"
    by (simp add: layerInpointDistance_def assms(1) unit_01)
  from jsub_le [OF assms(8,5,6)] unit_ratio [OF assms(4)]
  show "unit_interval (layerOutpointDistance sc l)"
    by (simp add: layerOutpointDistance_def assms(3) unit_01)
qed

lemma pushin_ratios_unit:
  assumes "transitionLength s = Num t" "0 < t"
    and "scrollPos s \<noteq> PInf" "scrollPos s \<noteq> NInf"
    and "jge (scrollPos s) (inpoint (params l))" "jle (scrollPos s) (outpoint (params l))"
  shows "unit_interval (inpointDistance s l)"
    and "unit_interval (outpointDistance s l)"
proof -
  from jsub_ge [OF assms(5,3,4)] unit_ratio [OF assms(2)]
  show "unit_interval (inpointDistance s l)"
    by (simp add: inpointDistance_def assms(1) unit_01)
  from jsub_le [OF assms(6,3,4)] unit_ratio [OF assms(2)]
  show "unit_interval (outpointDistance s l)"
    by (simp add: outpointDistance_def assms(1) unit_01)
qed

text \<open>
  The opacity written is 0, 1 or the minimum of the two ratios, and the minimum is
  written only by an active layer (with transitions, in \<open>PushInLayer\<close>).
\<close>

lemma layer_opacity_shape:
  "opacity (layerSetLayerStyle sc l st) = Num 0
   \<or> opacity (layerSetLayerStyle sc l st) = Num 1
   \<or> (opacity (layerSetLayerStyle sc l st) =
         jmin (layerInpointDistance sc l) (layerOutpointDistance sc l)
       \<and> jge (scrollY sc) (inpoint (params l)) \<and> jle (scrollY sc) (outpoint (params l)))"
  by (simp add: layerSetLayerStyle_def Let_def layerIsActive_def layerInpointDistance_def
        layerOutpointDistance_def)

lemma pushin_opacity_shape:
  "opacity (setLayerStyle s l st) = Num 0
   \<or> opacity (setLayerStyle s l st) = Num 1
   \<or> (opacity (setLayerStyle s l st) = jmin (inpointDistance s l) (outpointDistance s l)
       \<and> jge (scrollPos s) (inpoint (params l)) \<and> jle (scrollPos s) (outpoint (params l)))"
  by (simp add: setLayerStyle_def Let_def isActive_def inpointDistance_def
        outpointDistance_def)

lemma layer_opacity_structure:
  assumes "transitionStart (params l) = Num a" "0 < a"
    and "transitionEnd (params l) = Num b" "0 < b"
    and "scrollY sc \<noteq> PInf" "scrollY sc \<noteq> NInf"
  shows "opacity (layerSetLayerStyle sc l st) = Num 0
       \<or> opacity (layerSetLayerStyle sc l st) = Num 1
       \<or> (opacity (layerSetLayerStyle sc l st) =
             jmin (layerInpointDistance sc l) (layerOutpointDistance sc l)
           \<and> unit_interval (layerInpointDistance sc l)
           \<and> unit_interval (layerOutpointDistance sc l))"
  using layer_opacity_shape [of sc l st] layer_ratios_unit [OF assms] by blast

lemma pushin_opacity_structure:
  assumes "transitionLength s = Num t" "0 < t"
    and "scrollPos s \<noteq> PInf" "scrollPos s \<noteq> NInf"
  shows "opacity (setLayerStyle s l st) = Num 0
       \<or> opacity (setLayerStyle s l st) = Num 1
       \<or> (opacity (setLayerStyle s l st) = jmin (inpointDistance s l) (outpointDistance s l)
           \<and> unit_interval (inpointDistance s l)
           \<and> unit_interval (outpointDistance s l))"
  using pushin_opacity_shape [of s l st] pushin_ratios_unit [OF assms] by blast

lemma structure_unit:
  "v = Num 0 \<or> v = Num 1 \<or> (v = jmin x y \<and> unit_interval x \<and> unit_interval y)
     \<Longrightarrow> \<exists>r. v = Num r \<and> 0 \<le> r \<and> r \<le> 1"
  using unit_jmin [of x y] unit_interval_Num [of "jmin x y"] by auto

text \<open>
  The scroll position must not be an infinity either: at the scroll position
  \<open>Infinity\<close> a layer whose outpoint is \<open>Infinity\<close> is active, and its distance to the
  outpoint is \<open>Infinity - Infinity\<close>.
\<close>

lemma layerSetLayerStyle_infinite_scroll:
  "opacity (layerSetLayerStyle
      \<lparr>scrollY = PInf, layersLength = 3, breakpointIndex = 0\<rparr>
      \<lparr>elem = \<lparr>pushinSpeed = None\<rparr>, index = 1, originalScale = Num 1,
       ref = \<lparr>inpoints = [Num 900], outpoints = [PInf]\<rparr>,
       params = \<lparr>inpoint = Num 900, outpoint = PInf, speed = Num 8,
                 depth = PInf, transitions = True,
                 transitionStart = Num 200, transitionEnd = Num 200\<rparr>\<rparr>
      \<lparr>opacity = Num 0, scale = None\<rparr>) = NaN"
  by (simp add: layerSetLayerStyle_def layerIsActive_def jge_def jgt_def setScale_def Let_def)

text \<open>
  C8, as claimed: with \<open>transitionStart\<close> and \<open>transitionEnd\<close> strictly positive the
  opacity written lies between 0 and 1. It does not when such a window is infinite:
  a middle layer whose \<open>transitionEnd\<close> and outpoint are both \<open>Infinity\<close> is active at
  scroll position 950, its second ratio is \<open>Infinity / Infinity\<close>, and the opacity
  written is \<open>NaN\<close>.
\<close>

theorem layerSetLayerStyle_infinite_window:
  "(let sc = \<lparr>scrollY = Num 950, layersLength = 3, breakpointIndex = 0\<rparr>;
        l = \<lparr>elem = \<lparr>pushinSpeed = None\<rparr>, index = 1, originalScale = Num 1,
             ref = \<lparr>inpoints = [Num 900], outpoints = [PInf]\<rparr>,
             params = \<lparr>inpoint = Num 900, outpoint = PInf, speed = Num 8,
                       depth = PInf, transitions = True,
                       transitionStart = Num 200, transitionEnd = PInf\<rparr>\<rparr>;
        st = layerSetLayerStyle sc l \<lparr>opacity = Num 0, scale = None\<rparr>
    in jlt (Num 0) (transitionStart (params l)) \<and> jlt (Num 0) (transitionEnd (params l))
       \<and> layerInpointDistance sc l = Num (1 / 4) \<and> layerOutpointDistance sc l = NaN
       \<and> opacity st = NaN
       \<and> \<not> (jle (Num 0) (opacity st) \<and> jle (opacity st) (Num 1)))"
  by (simp add: layerSetLayerStyle_def layerIsActive_def jge_def jgt_def setScale_def
        layerInpointDistance_def layerOutpointDistance_def signed_def Let_def)

text \<open>
  C8, amended: when the layer's \<open>transitionStart\<close> and \<open>transitionEnd\<close> are finite and
  strictly positive (for pushin.js: the scene's \<open>transitionLength\<close>), then at every
  scroll position that is not an infinity and for every ordinal of the layer, the
  opacity that \<open>setLayerStyle\<close> writes is a number between 0 and 1: it is 0, 1 or the
  minimum of the two ratios, each of them between 0 and 1.
\<close>

theorem opacity_unit_interval_finite_window:
  assumes "transitionStart (params l) = Num a" and "0 < a"
    and "transitionEnd (params l) = Num b" and "0 < b"
    and "scrollY sc \<noteq> PInf" and "scrollY sc \<noteq> NInf"
    and "transitionLength s = Num t" and "0 < t"
    and "scrollPos s \<noteq> PInf" and "scrollPos s \<noteq> NInf"
  shows "(\<exists>r. opacity (layerSetLayerStyle sc l st) = Num r \<and> 0 \<le> r \<and> r \<le> 1)
       \<and> (opacity (layerSetLayerStyle sc l st) = Num 0
          \<or> opacity (layerSetLayerStyle sc l st) = Num 1
          \<or> (opacity (layerSetLayerStyle sc l st) =
                jmin (layerInpointDistance sc l) (layerOutpointDistance sc l)
              \<and> unit_interval (layerInpointDistance sc l)
              \<and> unit_interval (layerOutpointDistance sc l)))
       \<and> (\<exists>r. opacity (setLayerStyle s l' st') = Num r \<and> 0 \<le> r \<and> r \<le> 1)
       \<and> (opacity (setLayerStyle s l' st') = Num 0
          \<or> opacity (setLayerStyle s l' st') = Num 1
          \<or> (opacity (setLayerStyle s l' st') =
                jmin (inpointDistance s l') (outpointDistance s l')
              \<and> unit_interval (inpointDistance s l')
              \<and> unit_interval (outpointDistance s l')))"
proof -
  note ts = layer_opacity_structure [OF assms(1-6), of st]
  note js = pushin_opacity_structure [OF assms(7-10), of l' st']
  from ts have "\<exists>r. opacity (layerSetLayerStyle sc l st) = Num r \<and> 0 \<le> r \<and> r \<le> 1"
    by (rule structure_unit)
  moreover from js have "\<exists>r. opacity (setLayerStyle s l' st') = Num r \<and> 0 \<le> r \<and> r \<le> 1"
    by (rule structure_unit)
  ultimately show ?thesis
    using ts js by blast
qed

theorem opacity_unit_interval_finite_window_witness:
  "(let sc = \<lparr>scrollY = Num 950, layersLength = 3, breakpointIndex = 0\<rparr>;
        l = \<lparr>elem = \<lparr>pushinSpeed = None\<rparr>, index = 1, originalScale = Num 1,
             ref = \<lparr>inpoints = [Num 900], outpoints = [Num 1900]\<rparr>,
             params = \<lparr>inpoint = Num 900, outpoint = Num 1900, speed = Num 8,
                       depth = Num 1000, transitions = True,
                       transitionStart = Num 200, transitionEnd = Num 100\<rparr>\<rparr>;
        s = \<lparr>layers = [], breakpoints = [Num 0], scrollPos = Num 1850,
             transitionLength = Num 200\<rparr>;
        l' = \<lparr>elem = \<lparr>pushinSpeed = None\<rparr>, index = 1, originalScale = Num 1,
              ref = \<lparr>inpoints = [Num 900], outpoints = [Num 1900]\<rparr>,
              params = \<lparr>inpoint = Num 900, outpoint = Num 1900, speed = Num 8\<rparr>\<rparr>;
        st = \<lparr>opacity = Num 0, scale = None\<rparr>
    in transitionStart (params l) = Num 200 \<and> (0::real) < 200
       \<and> transitionEnd (params l) = Num 100 \<and> (0::real) < 100
       \<and> scrollY sc \<noteq> PInf \<and> scrollY sc \<noteq> NInf
       \<and> transitionLength s = Num 200
       \<and> scrollPos s \<noteq> PInf \<and> scrollPos s \<noteq> NInf
       \<and> opacity (layerSetLayerStyle sc l st) = Num (1 / 4)
       \<and> opacity (setLayerStyle s l' st) = Num (1 / 4)
       \<and> (\<exists>r. opacity (layerSetLayerStyle sc l st) = Num r \<and> 0 \<le> r \<and> r \<le> 1)
       \<and> (\<exists>r. opacity (setLayerStyle s l' st) = Num r \<and> 0 \<le> r \<and> r \<le> 1))"
proof -
  have ev: "opacity (layerSetLayerStyle \<lparr>scrollY = Num 950, layersLength = 3, breakpointIndex = 0\<rparr>
        \<lparr>elem = \<lparr>pushinSpeed = None\<rparr>, index = 1, originalScale = Num 1,
             ref = \<lparr>inpoints = [Num 900], outpoints = [Num 1900]\<rparr>,
             params = \<lparr>inpoint = Num 900, outpoint = Num 1900, speed = Num 8,
                       depth = Num 1000, transitions = True,
                       transitionStart = Num 200, transitionEnd = Num 100\<rparr>\<rparr>
        \<lparr>opacity = Num 0, scale = None\<rparr>) = Num (1 / 4)"
    by (simp add: layerSetLayerStyle_def layerIsActive_def jge_def jgt_def setScale_def Let_def)
  have ev': "opacity (setLayerStyle \<lparr>layers = [], breakpoints = [Num 0], scrollPos = Num 1850,
             transitionLength = Num 200\<rparr>
        \<lparr>elem = \<lparr>pushinSpeed = None\<rparr>, index = 1, originalScale = Num 1,
              ref = \<lparr>inpoints = [Num 900], outpoints = [Num 1900]\<rparr>,
              params = \<lparr>inpoint = Num 900, outpoint = Num 1900, speed = Num 8\<rparr>\<rparr>
        \<lparr>opacity = Num 0, scale = None\<rparr>) = Num (1 / 4)"
    by (simp add: setLayerStyle_def isActive_def jge_def jgt_def setScale_def Let_def)
  have h: "(0::real) < 200" "(0::real) < 100" by simp_all
  from opacity_unit_interval_finite_window
    [of "\<lparr>elem = \<lparr>pushinSpeed = None\<rparr>, index = 1, originalScale = Num 1,
             ref = \<lparr>inpoints = [Num 900], outpoints = [Num 1900]\<rparr>,
             params = \<lparr>inpoint = Num 900, outpoint = Num 1900, speed = Num 8,
                       depth = Num 1000, transitions = True,
                       transitionStart = Num 200, transitionEnd = Num 100\<rparr>\<rparr>"
        200 100
        "\<lparr>scrollY = Num 950, layersLength = 3, breakpointIndex = 0\<rparr>"
        "\<lparr>layers = [], breakpoints = [Num 0], scrollPos = Num 1850,
             transitionLength = Num 200\<rparr>"
        200
        "\<lparr>opacity = Num 0, scale = None\<rparr>"
        "\<lparr>elem = \<lparr>pushinSpeed = None\<rparr>, index = 1, originalScale = Num 1,
              ref = \<lparr>inpoints = [Num 900], outpoints = [Num 1900]\<rparr>,
              params = \<lparr>inpoint = Num 900, outpoint = Num 1900, speed = Num 8\<rparr>\<rparr>"
        "\<lparr>opacity = Num 0, scale = None\<rparr>"]
  have c: "(\<exists>r. opacity (layerSetLayerStyle
        \<lparr>scrollY = Num 950, layersLength = 3, breakpointIndex = 0\<rparr>
        \<lparr>elem = \<lparr>pushinSpeed = None\<rparr>, index = 1, originalScale = Num 1,
             ref = \<lparr>inpoints = [Num 900], outpoints = [Num 1900]\<rparr>,
             params = \<lparr>inpoint = Num 900, outpoint = Num 1900, speed = Num 8,
                       depth = Num 1000, transitions = True,
                       transitionStart = Num 200, transitionEnd = Num 100\<rparr>\<rparr>
        \<lparr>opacity = Num 0, scale = None\<rparr>) = Num r \<and> 0 \<le> r \<and> r \<le> 1)
    \<and> (\<exists>r. opacity (setLayerStyle
        \<lparr>layers = [], breakpoints = [Num 0], scrollPos = Num 1850,
             transitionLength = Num 200\<rparr>
        \<lparr>elem = \<lparr>pushinSpeed = None\<rparr>, index = 1, originalScale = Num 1,
              ref = \<lparr>inpoints = [Num 900], outpoints = [Num 1900]\<rparr>,
              params = \<lparr>inpoint = Num 900, outpoint = Num 1900, speed = Num 8\<rparr>\<rparr>
        \<lparr>opacity = Num 0, scale = None\<rparr>) = Num r \<and> 0 \<le> r \<and> r \<le> 1)"
    using h by simp
  from c ev ev' show ?thesis
    by (simp add: Let_def)
qed


section \<open>The speed\<close>

text \<open>
  C9, as claimed: whenever the speed attribute is present and parses to \<open>NaN\<close>,
  \<open>getSpeed\<close> returns 8. \<open>PushInLayer.getSpeed\<close> does not for the empty attribute:
  it parses to \<open>NaN\<close>, but the guard on the attribute takes an empty string for an
  absent one, and with the option \<open>speed: 20\<close> the result is 20.
\<close>

theorem layerGetSpeed_empty_attribute:
  "parseInt '''' = NaN \<and> layerGetSpeed (Some '''') (Num 20) = Num 20
   \<and> layerGetSpeed (Some '''') (Num 20) \<noteq> Num 8"
  by (simp add: layerGetSpeed_def DEFAULT_SPEED_def parse_defs jor_def)

text \<open>
  C9, amended: when the speed attribute is present and parses to \<open>NaN\<close>, \<open>getSpeed\<close> of
  pushin.js returns the default 8, and so does \<open>PushInLayer.getSpeed\<close> when the
  attribute is not empty; for the empty attribute \<open>PushInLayer.getSpeed\<close> returns the
  speed of the options when that is truthy, and 8 otherwise.
\<close>

theorem getSpeed_NaN_default:
  "(parseInt a = NaN \<longrightarrow> getSpeed \<lparr>pushinSpeed = Some a\<rparr> = Num 8)
   \<and> (a \<noteq> [] \<and> parseInt a = NaN \<longrightarrow> layerGetSpeed (Some a) optionsSpeed = Num 8)
   \<and> layerGetSpeed (Some []) optionsSpeed =
       (if truthy optionsSpeed then optionsSpeed else Num 8)"
  by (cases a) (simp_all add: getSpeed_def layerGetSpeed_def DEFAULT_SPEED_def jor_def)

theorem getSpeed_NaN_default_witness:
  "parseInt ''abc'' = NaN \<and> ''abc'' \<noteq> []
   \<and> getSpeed \<lparr>pushinSpeed = Some ''abc''\<rparr> = Num 8
   \<and> layerGetSpeed (Some ''abc'') (Num 20) = Num 8"
proof -
  have p: "parseInt ''abc'' = NaN" by (simp add: parse_defs)
  from getSpeed_NaN_default [of "''abc''" "Num 20"] p show ?thesis by simp
qed

text \<open>
  C10. A speed of 0 counts as unset: the attribute \<open>0\<close> gives the default 8 in both
  versions, and in \<open>PushInLayer.getSpeed\<close> the option \<open>speed: 0\<close> gives what no option
  gives, which is 8 when there is no attribute.
\<close>

theorem getSpeed_zero_is_unset:
  "getSpeed \<lparr>pushinSpeed = Some ''0''\<rparr> = Num 8
   \<and> layerGetSpeed (Some ''0'') optionsSpeed = Num 8
   \<and> layerGetSpeed None (Num 0) = Num 8
   \<and> layerGetSpeed attr (Num 0) = layerGetSpeed attr Undefined"
proof -
  have p: "parseInt ''0'' = Num 0" by (simp add: parse_defs)
  have 1: "getSpeed \<lparr>pushinSpeed = Some ''0''\<rparr> = Num 8"
    by (simp add: getSpeed_def p jor_def)
  have 2: "layerGetSpeed (Some ''0'') optionsSpeed = Num 8"
    by (simp add: layerGetSpeed_def p jor_def DEFAULT_SPEED_def)
  have 3: "layerGetSpeed attr (Num 0) = layerGetSpeed attr Undefined"
    by (simp add: layerGetSpeed_def split: option.split list.split)
  have 4: "layerGetSpeed None (Num 0) = Num 8"
    by (simp add: layerGetSpeed_def DEFAULT_SPEED_def)
  from 1 2 3 4 show ?thesis by simp
qed

end
